theory Spec2Isabelle
  imports Main "HOL-Library.AList"
begin

section \<open>Strings\<close>

text \<open>
  Python strings are modelled as \<open>string\<close>. \<open>str.lower\<close> and \<open>str.capitalize\<close> are
  modelled on the ASCII letters; every other character is left as it is.
\<close>

definition ascii_uppercase :: string where
  "ascii_uppercase = ''ABCDEFGHIJKLMNOPQRSTUVWXYZ''"

definition ascii_lowercase :: string where
  "ascii_lowercase = ''abcdefghijklmnopqrstuvwxyz''"

definition lower_char :: "char \<Rightarrow> char" where
  "lower_char c = (case map_of (zip ascii_uppercase ascii_lowercase) c of
                     Some d \<Rightarrow> d | None \<Rightarrow> c)"

definition upper_char :: "char \<Rightarrow> char" where
  "upper_char c = (case map_of (zip ascii_lowercase ascii_uppercase) c of
                     Some d \<Rightarrow> d | None \<Rightarrow> c)"

definition lower :: "string \<Rightarrow> string" where
  "lower s = map lower_char s"

definition capitalize :: "string \<Rightarrow> string" where
  "capitalize s = (case s of [] \<Rightarrow> [] | c # cs \<Rightarrow> upper_char c # map lower_char cs)"

text \<open>\<open>sep.join(xs)\<close>\<close>

fun join :: "string \<Rightarrow> string list \<Rightarrow> string" where
  "join sep [] = []"
| "join sep [x] = x"
| "join sep (x # y # ys) = x @ sep @ join sep (y # ys)"

section \<open>Tokens of a parsed document\<close>

text \<open>
  A spaCy \<open>Doc\<close> is the list of its tokens. A token carries its surface text, lemma,
  coarse part of speech, fine-grained tag, dependency label and the position of its
  head in the document (the root of a sentence is its own head). A token of the
  program is a position \<open>i\<close> of the document; \<open>token.children\<close> are the other
  tokens whose head is \<open>i\<close>, in document order.
\<close>

record token =
  tok_text :: string
  tok_lemma :: string
  tok_pos :: string
  tok_tag :: string
  tok_dep :: string
  tok_head :: nat

type_synonym doc = "token list"

definition children :: "doc \<Rightarrow> nat \<Rightarrow> nat list" where
  "children d i = filter (\<lambda>j. j \<noteq> i \<and> tok_head (d ! j) = i) [0..<length d]"

text \<open>\<open>token.head\<close>, as a position.\<close>

definition head :: "doc \<Rightarrow> nat \<Rightarrow> nat" where
  "head d i = tok_head (d ! i)"

text \<open>\<open>[c for c in cs if c.dep_ == l]\<close>\<close>

definition with_dep :: "doc \<Rightarrow> string \<Rightarrow> nat list \<Rightarrow> nat list" where
  "with_dep d l cs = filter (\<lambda>c. tok_dep (d ! c) = l) cs"

section \<open>The WordNet lookup\<close>

text \<open>
  \<open>wordnet.synsets(word)\<close> and \<open>s.pos()\<close> are calls into a library; either may raise.
  A synset is modelled by what its \<open>pos()\<close> call does.
\<close>

datatype 'a outcome = Raises | Returns 'a

type_synonym synset = "string outcome"

type_synonym wordnet = "string \<Rightarrow> synset list outcome"

text \<open>\<open>any(s.pos() == 'n' for s in synsets)\<close>: stops at the first noun sense.\<close>

fun any_noun :: "synset list \<Rightarrow> bool outcome" where
  "any_noun [] = Returns False"
| "any_noun (s # ss) =
     (case s of
        Raises \<Rightarrow> Raises
      | Returns p \<Rightarrow> if p = ''n'' then Returns True else any_noun ss)"

definition check_ontology :: "wordnet \<Rightarrow> string \<Rightarrow> bool" where
  "check_ontology wn word =
     (case wn word of
        Raises \<Rightarrow> True
      | Returns synsets \<Rightarrow>
          if synsets = [] then True
          else (case any_noun synsets of Raises \<Rightarrow> True | Returns b \<Rightarrow> b))"

section \<open>Multiplicity\<close>

definition quantifier_words :: "string list" where
  "quantifier_words = [''many'', ''multiple'', ''list'', ''set'', ''all'', ''collection'']"

text \<open>The loop of \<open>detect_multiplicity\<close> over \<open>token.children\<close>.\<close>

fun detect_loop :: "doc \<Rightarrow> nat list \<Rightarrow> string" where
  "detect_loop d [] = ''1''"
| "detect_loop d (child # rest) =
     (if lower (tok_text (d ! child)) \<in> set quantifier_words then ''1..*''
      else if tok_tag (d ! child) = ''NNS'' then ''0..*''
      else detect_loop d rest)"

definition detect_multiplicity :: "doc \<Rightarrow> nat \<Rightarrow> string" where
  "detect_multiplicity d i = detect_loop d (children d i)"

section \<open>The engine state\<close>

record class_entry =
  attributes :: "string set"
  methods :: "string set"

type_synonym relationship = "string \<times> string \<times> string \<times> string"

text \<open>
  \<open>self.classes\<close> is a dict, which keeps insertion order: an association list in which
  \<open>AList.update\<close> overwrites a key in place and appends a new one at the end.
  \<open>self.nlp\<close> is the parser model or \<open>None\<close>.
\<close>

record engine =
  nlp :: "(string \<Rightarrow> doc) option"
  classes :: "(string \<times> class_entry) list"
  relationships :: "relationship list"

definition ignored_verbs :: "string list" where
  "ignored_verbs = [''be'', ''have'', ''include'', ''consist'', ''contain'', ''involve'']"

definition empty_entry :: class_entry where
  "empty_entry = \<lparr>attributes = {}, methods = {}\<rparr>"

text \<open>\<open>ThesisUMLSystem(nlp_model)\<close>\<close>

definition init :: "(string \<Rightarrow> doc) option \<Rightarrow> engine" where
  "init nlp_model = \<lparr>nlp = nlp_model, classes = [], relationships = []\<rparr>"

text \<open>\<open>c in self.classes\<close>\<close>

definition registered :: "engine \<Rightarrow> string \<Rightarrow> bool" where
  "registered self c = (c \<in> fst ` set (classes self))"

text \<open>\<open>if c not in self.classes: self.classes[c] = {'attributes': set(), 'methods': set()}\<close>\<close>

definition register :: "string \<Rightarrow> engine \<Rightarrow> engine" where
  "register c self =
     (if \<not> registered self c
      then self\<lparr>classes := AList.update c empty_entry (classes self)\<rparr>
      else self)"

text \<open>
  \<open>self.classes[name]['attributes'].add(x)\<close> and \<open>self.classes[name]['methods'].add(x)\<close>.
  Python raises \<open>KeyError\<close> when \<open>name\<close> is not a key; every call site of the program
  has checked or registered the name before, and the model leaves the registry as
  it is in that case.
\<close>

definition add_attribute :: "string \<Rightarrow> string \<Rightarrow> engine \<Rightarrow> engine" where
  "add_attribute name x self =
     (case map_of (classes self) name of
        None \<Rightarrow> self
      | Some e \<Rightarrow>
          self\<lparr>classes :=
            AList.update name (e\<lparr>attributes := insert x (attributes e)\<rparr>) (classes self)\<rparr>)"

definition add_method :: "string \<Rightarrow> string \<Rightarrow> engine \<Rightarrow> engine" where
  "add_method name x self =
     (case map_of (classes self) name of
        None \<Rightarrow> self
      | Some e \<Rightarrow>
          self\<lparr>classes :=
            AList.update name (e\<lparr>methods := insert x (methods e)\<rparr>) (classes self)\<rparr>)"

text \<open>\<open>self.relationships.append(r)\<close>\<close>

definition append_rel :: "relationship \<Rightarrow> engine \<Rightarrow> engine" where
  "append_rel r self = self\<lparr>relationships := relationships self @ [r]\<rparr>"

section \<open>The extraction rules\<close>

definition rule1 :: "wordnet \<Rightarrow> doc \<Rightarrow> nat \<Rightarrow> engine \<Rightarrow> engine" where
  "rule1 wn d i self =
     (let token = d ! i in
      if tok_pos token \<in> set [''NOUN'', ''PROPN'']
         \<and> tok_dep token \<in> set [''nsubj'', ''dobj'', ''pobj'', ''nsubjpass'']
      then
        (let lem = lower (tok_lemma token) in
         if lem \<notin> set [''user'', ''data''] then
           if check_ontology wn lem then register (capitalize (tok_lemma token)) self
           else self
         else self)
      else self)"

definition rule2 :: "doc \<Rightarrow> nat \<Rightarrow> engine \<Rightarrow> engine" where
  "rule2 d i self =
     (let subj = with_dep d ''nsubj'' (children d i);
          attr = with_dep d ''attr'' (children d i) in
      if subj \<noteq> [] \<and> attr \<noteq> [] then
        (let c = capitalize (tok_lemma (d ! hd subj));
             p = capitalize (tok_lemma (d ! hd attr)) in
         if registered self c \<and> registered self p
         then append_rel (c, ''Generalization'', p, '''') self
         else self)
      else self)"

definition rule3 :: "doc \<Rightarrow> nat \<Rightarrow> engine \<Rightarrow> engine" where
  "rule3 d i self =
     (let owners = with_dep d ''nsubj'' (children d i);
          objs = with_dep d ''dobj'' (children d i) in
      if owners \<noteq> [] \<and> objs \<noteq> [] then
        (let owner = capitalize (tok_lemma (d ! hd owners));
             mult = detect_multiplicity d (hd objs);
             mlabel = (if mult \<noteq> ''1'' then mult else '''') in
         if registered self owner then
           (let obj_c = capitalize (tok_lemma (d ! hd objs)) in
            if registered self obj_c
            then append_rel (owner, ''Composition'', obj_c, mlabel) self
            else add_attribute owner (tok_text (d ! hd objs)) self)
         else self)
      else self)"

definition rule4 :: "doc \<Rightarrow> nat \<Rightarrow> engine \<Rightarrow> engine" where
  "rule4 d i self =
     (let token = d ! i;
          subjs = with_dep d ''nsubj'' (children d i) in
      if subjs \<noteq> [] then
        (let s = capitalize (tok_lemma (d ! hd subjs)) in
         if registered self s then
           (let self1 = add_method s (tok_lemma token) self;
                dobjs = with_dep d ''dobj'' (children d i) in
            if dobjs \<noteq> [] then
              (let ob = capitalize (tok_lemma (d ! hd dobjs)) in
               if registered self1 ob \<and> s \<noteq> ob
               then append_rel (s, ''Association'', ob, tok_lemma token) self1
               else self1)
            else self1)
         else self)
      else self)"

text \<open>The \<open>if\<close> / \<open>elif\<close> / \<open>elif\<close> chain of Rules 2, 3 and 4.\<close>

definition rules234 :: "doc \<Rightarrow> nat \<Rightarrow> engine \<Rightarrow> engine" where
  "rules234 d i self =
     (let token = d ! i in
      if tok_lemma token = ''be'' then rule2 d i self
      else if tok_lemma token \<in> set [''have'', ''contain'', ''include'', ''consist'']
        then rule3 d i self
      else if tok_pos token = ''VERB'' \<and> tok_lemma token \<notin> set ignored_verbs
        then rule4 d i self
      else self)"

definition rule5 :: "doc \<Rightarrow> nat \<Rightarrow> engine \<Rightarrow> engine" where
  "rule5 d i self =
     (let token = d ! i in
      if tok_dep token = ''agent'' \<and> tok_pos (d ! head d i) = ''VERB'' then
        (let actual_agent = with_dep d ''pobj'' (children d i);
             verb = head d i;
             passive_subj = with_dep d ''nsubjpass'' (children d verb) in
         if actual_agent \<noteq> [] \<and> passive_subj \<noteq> [] then
           (let act = capitalize (tok_lemma (d ! hd actual_agent));
                rec = capitalize (tok_lemma (d ! hd passive_subj));
                self1 = register act self;
                self2 = register rec self1;
                self3 = add_method act (tok_lemma (d ! verb)) self2
            in append_rel (act, ''Association'', rec, tok_lemma (d ! verb)) self3)
         else self)
      else self)"

text \<open>The body of \<open>for token in doc\<close>, for the token at position \<open>i\<close>.\<close>

definition process_token :: "wordnet \<Rightarrow> doc \<Rightarrow> nat \<Rightarrow> engine \<Rightarrow> engine" where
  "process_token wn d i self = rule5 d i (rules234 d i (rule1 wn d i self))"

definition process_loop :: "wordnet \<Rightarrow> doc \<Rightarrow> engine \<Rightarrow> engine" where
  "process_loop wn d self = fold (process_token wn d) [0..<length d] self"

section \<open>The diagram\<close>

text \<open>
  The \<open>Digraph\<close> built by \<open>generate_graphviz\<close>: the graph and node attributes set by
  \<open>dot.attr\<close>, the nodes (name and label) and the edges (tail, head and keyword
  arguments) in the order of the calls.
\<close>

record edge =
  edge_tail :: string
  edge_head :: string
  edge_attrs :: "(string \<times> string) list"

record digraph =
  graph_attr :: "(string \<times> string) list"
  node_attr :: "(string \<times> string) list"
  nodes :: "(string \<times> string) list"
  edges :: "edge list"

text \<open>The two characters of the raw string \<open>r"\l"\<close>.\<close>

definition left_break :: string where
  "left_break = [CHR 0x5C, CHR ''l'']"

text \<open>
  Python iterates a set in an order of its own. The order is a parameter of the model:
  \<open>iter S\<close> is the list in which the elements of the set \<open>S\<close> are visited.
\<close>

definition node_label :: "(string set \<Rightarrow> string list) \<Rightarrow> string \<Rightarrow> class_entry \<Rightarrow> string" where
  "node_label iter class_name details =
     (let attrs = (if attributes details \<noteq> {}
                   then join left_break (map (\<lambda>a. ''- '' @ a) (iter (attributes details)))
                        @ left_break
                   else []);
          meths = (if methods details \<noteq> {}
                   then join left_break (map (\<lambda>m. ''+ '' @ m @ ''()'') (iter (methods details)))
                        @ left_break
                   else [])
      in ''{ '' @ class_name @ '' | '' @ attrs @ '' | '' @ meths @ '' }'')"

fun edge_of :: "relationship \<Rightarrow> edge" where
  "edge_of (s, r_type, t, label) =
     (if r_type = ''Generalization'' then
        \<lparr>edge_tail = s, edge_head = t,
         edge_attrs = [(''arrowhead'', ''onormal''), (''label'', '''')]\<rparr>
      else if r_type = ''Composition'' then
        \<lparr>edge_tail = s, edge_head = t,
         edge_attrs = [(''dir'', ''both''), (''arrowtail'', ''diamond''),
                       (''arrowhead'', ''none''), (''label'', label)]\<rparr>
      else
        \<lparr>edge_tail = s, edge_head = t,
         edge_attrs = [(''arrowhead'', ''vee''), (''label'', label)]\<rparr>)"

text \<open>\<open>unique_rels = set(self.relationships)\<close>, in the order the loop visits it.\<close>

definition unique_rels ::
  "(relationship set \<Rightarrow> relationship list) \<Rightarrow> engine \<Rightarrow> relationship list" where
  "unique_rels ord_rel self = ord_rel (set (relationships self))"

definition generate_graphviz ::
  "(string set \<Rightarrow> string list) \<Rightarrow> (relationship set \<Rightarrow> relationship list) \<Rightarrow> engine \<Rightarrow> digraph" where
  "generate_graphviz ord_str ord_rel self =
     \<lparr>graph_attr = [(''rankdir'', ''BT''), (''splines'', ''ortho''),
                    (''nodesep'', ''0.8''), (''ranksep'', ''0.8'')],
      node_attr = [(''shape'', ''record''), (''style'', ''filled''),
                   (''fillcolor'', ''#FEFECE''), (''fontname'', ''Helvetica''),
                   (''fontsize'', ''12'')],
      nodes = map (\<lambda>(class_name, details). (class_name, node_label ord_str class_name details))
                  (classes self),
      edges = map edge_of (unique_rels ord_rel self)\<rparr>"

text \<open>
  An iteration order visits every element of the set once.
\<close>

definition iteration_of :: "'a set \<Rightarrow> 'a list \<Rightarrow> bool" where
  "iteration_of S xs = (set xs = S \<and> distinct xs)"

section \<open>process\<close>

text \<open>
  \<open>process\<close> returns the diagram, or \<open>None\<close>, together with the engine as the call
  leaves it.
\<close>

definition process ::
  "wordnet \<Rightarrow> (string set \<Rightarrow> string list) \<Rightarrow> (relationship set \<Rightarrow> relationship list)
   \<Rightarrow> engine \<Rightarrow> string \<Rightarrow> digraph option \<times> engine" where
  "process wn ord_str ord_rel self txt =
     (case nlp self of
        None \<Rightarrow> (None, self)
      | Some parse \<Rightarrow>
          (let self0 = self\<lparr>classes := [], relationships := []\<rparr>;
               d = parse txt;
               self1 = process_loop wn d self0
           in (Some (generate_graphviz ord_str ord_rel self1), self1)))"

section \<open>Example inputs\<close>

definition wn_example :: wordnet where
  "wn_example w =
     (if w = ''quickly'' then Returns [Returns ''r'']
      else if w = ''run'' then Returns [Returns ''v'', Returns ''n'']
      else if w = ''banksystem'' then Returns []
      else Raises)"

text \<open>A token, field by field: text, lemma, coarse tag, fine tag, dependency, head.\<close>

definition tk :: "string \<Rightarrow> string \<Rightarrow> string \<Rightarrow> string \<Rightarrow> string \<Rightarrow> nat \<Rightarrow> token" where
  "tk t l p g dp h =
     \<lparr>tok_text = t, tok_lemma = l, tok_pos = p, tok_tag = g, tok_dep = dp, tok_head = h\<rparr>"

text \<open>
  ``Bank has customers many accounts'': the object \<open>accounts\<close> (position 4) has the
  plural noun \<open>customers\<close> as its first child and the quantifier \<open>many\<close> as its second.
\<close>

definition doc_plural_first :: doc where
  "doc_plural_first =
     [tk ''Bank'' ''Bank'' ''PROPN'' ''NNP'' ''nsubj'' 1,
      tk ''has'' ''have'' ''VERB'' ''VBZ'' ''ROOT'' 1,
      tk ''customers'' ''customer'' ''NOUN'' ''NNS'' ''compound'' 4,
      tk ''many'' ''many'' ''ADJ'' ''JJ'' ''amod'' 4,
      tk ''accounts'' ''account'' ''NOUN'' ''NNS'' ''dobj'' 1]"

text \<open>
  ``Bank has all savings accounts'': the object (position 4) has the quantifier \<open>all\<close> as
  its first child and the plural noun \<open>savings\<close> as its second.
\<close>

definition doc_quantifier_first :: doc where
  "doc_quantifier_first =
     [tk ''Bank'' ''Bank'' ''PROPN'' ''NNP'' ''nsubj'' 1,
      tk ''has'' ''have'' ''VERB'' ''VBZ'' ''ROOT'' 1,
      tk ''all'' ''all'' ''DET'' ''PDT'' ''det'' 4,
      tk ''savings'' ''saving'' ''NOUN'' ''NNS'' ''compound'' 4,
      tk ''accounts'' ''account'' ''NOUN'' ''NNS'' ''dobj'' 1]"

text \<open>
  ``The Account is managed by the Administrator.''
\<close>

definition doc_passive :: doc where
  "doc_passive =
     [tk ''The'' ''the'' ''DET'' ''DT'' ''det'' 1,
      tk ''Account'' ''account'' ''NOUN'' ''NN'' ''nsubjpass'' 3,
      tk ''is'' ''be'' ''AUX'' ''VBZ'' ''auxpass'' 3,
      tk ''managed'' ''manage'' ''VERB'' ''VBN'' ''ROOT'' 3,
      tk ''by'' ''by'' ''ADP'' ''IN'' ''agent'' 3,
      tk ''the'' ''the'' ''DET'' ''DT'' ''det'' 6,
      tk ''Administrator'' ''administrator'' ''NOUN'' ''NN'' ''pobj'' 4,
      tk ''.'' ''.'' ''PUNCT'' ''.'' ''punct'' 3]"

text \<open>A lexical inventory that knows no word, and a parser that returns \<open>doc_passive\<close>.\<close>

definition wn_unknown :: wordnet where
  "wn_unknown w = Returns []"

definition parse_passive :: "string \<Rightarrow> doc" where
  "parse_passive txt = doc_passive"

text \<open>
  ``The Dog is an Animal.''
\<close>

definition doc_dog :: doc where
  "doc_dog =
     [tk ''The'' ''the'' ''DET'' ''DT'' ''det'' 1,
      tk ''Dog'' ''dog'' ''NOUN'' ''NN'' ''nsubj'' 2,
      tk ''is'' ''be'' ''AUX'' ''VBZ'' ''ROOT'' 2,
      tk ''an'' ''an'' ''DET'' ''DT'' ''det'' 4,
      tk ''Animal'' ''animal'' ''NOUN'' ''NN'' ''attr'' 2,
      tk ''.'' ''.'' ''PUNCT'' ''.'' ''punct'' 2]"

text \<open>
  ``The Car has an engine.''
\<close>

definition doc_car :: doc where
  "doc_car =
     [tk ''The'' ''the'' ''DET'' ''DT'' ''det'' 1,
      tk ''Car'' ''car'' ''NOUN'' ''NN'' ''nsubj'' 2,
      tk ''has'' ''have'' ''VERB'' ''VBZ'' ''ROOT'' 2,
      tk ''an'' ''an'' ''DET'' ''DT'' ''det'' 4,
      tk ''engine'' ''engine'' ''NOUN'' ''NN'' ''dobj'' 2,
      tk ''.'' ''.'' ''PUNCT'' ''.'' ''punct'' 2]"

text \<open>
  ``Users Administrators manage Accounts'': the verb (position 2) has two \<open>nsubj\<close>
  children. The lemma of the first is on the exclusion list of Rule 1, so it is never
  registered; the second is registered when the loop reaches the verb.
\<close>

definition doc_two_subjects :: doc where
  "doc_two_subjects =
     [tk ''Users'' ''user'' ''NOUN'' ''NNS'' ''nsubj'' 2,
      tk ''Administrators'' ''administrator'' ''NOUN'' ''NNS'' ''nsubj'' 2,
      tk ''manage'' ''manage'' ''VERB'' ''VBP'' ''ROOT'' 2,
      tk ''Accounts'' ''account'' ''NOUN'' ''NNS'' ''dobj'' 2]"

text \<open>
  ``The Administrator manages the Account.''
\<close>

definition doc_active :: doc where
  "doc_active =
     [tk ''The'' ''the'' ''DET'' ''DT'' ''det'' 1,
      tk ''Administrator'' ''administrator'' ''NOUN'' ''NN'' ''nsubj'' 2,
      tk ''manages'' ''manage'' ''VERB'' ''VBZ'' ''ROOT'' 2,
      tk ''the'' ''the'' ''DET'' ''DT'' ''det'' 4,
      tk ''Account'' ''account'' ''NOUN'' ''NN'' ''dobj'' 2,
      tk ''.'' ''.'' ''PUNCT'' ''.'' ''punct'' 2]"

text \<open>An engine state with the given registry and relationships, and no parser model.\<close>

definition state_of :: "(string \<times> class_entry) list \<Rightarrow> relationship list \<Rightarrow> engine" where
  "state_of cs rs = \<lparr>nlp = None, classes = cs, relationships = rs\<rparr>"

section \<open>Properties of the engine state\<close>

text \<open>Both endpoints of every collected relationship are keys of the registry.\<close>

definition endpoints_registered :: "engine \<Rightarrow> bool" where
  "endpoints_registered self =
     (\<forall>r \<in> set (relationships self).
        registered self (fst r) \<and> registered self (fst (snd (snd r))))"

text \<open>The relationships of kind \<open>Generalization\<close> in a collection, in its order.\<close>

definition generalizations :: "relationship list \<Rightarrow> relationship list" where
  "generalizations rs = filter (\<lambda>r. fst (snd r) = ''Generalization'') rs"

section \<open>Basic facts about the registry operations\<close>

lemma registered_iff_map_of: "registered self c \<longleftrightarrow> map_of (classes self) c \<noteq> None"
  by (simp add: registered_def map_of_eq_None_iff)

lemma registered_register [simp]:
  "registered (register c self) x \<longleftrightarrow> x = c \<or> registered self x"
  by (auto simp: register_def registered_def AList.dom_update)

lemma registered_add_attribute [simp]:
  "registered (add_attribute n x self) c = registered self c"
  by (auto simp: add_attribute_def registered_def AList.dom_update split: option.splits
      dest: map_of_SomeD intro: rev_image_eqI)

lemma registered_add_method [simp]:
  "registered (add_method n x self) c = registered self c"
  by (auto simp: add_method_def registered_def AList.dom_update split: option.splits
      dest: map_of_SomeD intro: rev_image_eqI)

lemma registered_append_rel [simp]:
  "registered (append_rel r self) c = registered self c"
  by (simp add: append_rel_def registered_def)

lemma relationships_register [simp]: "relationships (register c self) = relationships self"
  by (simp add: register_def)

lemma relationships_add_attribute [simp]:
  "relationships (add_attribute n x self) = relationships self"
  by (simp add: add_attribute_def split: option.splits)

lemma relationships_add_method [simp]:
  "relationships (add_method n x self) = relationships self"
  by (simp add: add_method_def split: option.splits)

lemma relationships_append_rel [simp]:
  "relationships (append_rel r self) = relationships self @ [r]"
  by (simp add: append_rel_def)

lemma classes_append_rel [simp]: "classes (append_rel r self) = classes self"
  by (simp add: append_rel_def)

lemma nlp_register [simp]: "nlp (register c self) = nlp self"
  by (simp add: register_def)

lemma nlp_add_attribute [simp]: "nlp (add_attribute n x self) = nlp self"
  by (simp add: add_attribute_def split: option.splits)

lemma nlp_add_method [simp]: "nlp (add_method n x self) = nlp self"
  by (simp add: add_method_def split: option.splits)

lemma nlp_append_rel [simp]: "nlp (append_rel r self) = nlp self"
  by (simp add: append_rel_def)

lemma map_of_register:
  "map_of (classes (register c self)) =
     (if registered self c then map_of (classes self)
      else (map_of (classes self))(c \<mapsto> empty_entry))"
  by (simp add: register_def AList.update_conv')

lemma map_of_add_method:
  "map_of (classes (add_method n x self)) =
     (case map_of (classes self) n of
        None \<Rightarrow> map_of (classes self)
      | Some e \<Rightarrow> (map_of (classes self))(n \<mapsto> e\<lparr>methods := insert x (methods e)\<rparr>))"
  by (simp add: add_method_def AList.update_conv' split: option.splits)

lemma map_of_add_attribute:
  "map_of (classes (add_attribute n x self)) =
     (case map_of (classes self) n of
        None \<Rightarrow> map_of (classes self)
      | Some e \<Rightarrow> (map_of (classes self))(n \<mapsto> e\<lparr>attributes := insert x (attributes e)\<rparr>))"
  by (simp add: add_attribute_def AList.update_conv' split: option.splits)

section \<open>Case conversion of the words in the examples\<close>

lemma capitalize_account: "capitalize ''account'' = ''Account''"
  by (simp add: capitalize_def upper_char_def lower_char_def ascii_uppercase_def
      ascii_lowercase_def)

lemma capitalize_administrator: "capitalize ''administrator'' = ''Administrator''"
  by (simp add: capitalize_def upper_char_def lower_char_def ascii_uppercase_def
      ascii_lowercase_def)

lemma capitalize_dog: "capitalize ''dog'' = ''Dog''"
  by (simp add: capitalize_def upper_char_def lower_char_def ascii_uppercase_def
      ascii_lowercase_def)

lemma capitalize_animal: "capitalize ''animal'' = ''Animal''"
  by (simp add: capitalize_def upper_char_def lower_char_def ascii_uppercase_def
      ascii_lowercase_def)

lemma capitalize_car: "capitalize ''car'' = ''Car''"
  by (simp add: capitalize_def upper_char_def lower_char_def ascii_uppercase_def
      ascii_lowercase_def)

lemma capitalize_engine: "capitalize ''engine'' = ''Engine''"
  by (simp add: capitalize_def upper_char_def lower_char_def ascii_uppercase_def
      ascii_lowercase_def)

lemma capitalize_Bank: "capitalize ''Bank'' = ''Bank''"
  by (simp add: capitalize_def upper_char_def lower_char_def ascii_uppercase_def
      ascii_lowercase_def)

lemma lower_many: "lower ''many'' = ''many''"
  by (simp add: lower_def lower_char_def ascii_uppercase_def ascii_lowercase_def)

lemma lower_all: "lower ''all'' = ''all''"
  by (simp add: lower_def lower_char_def ascii_uppercase_def ascii_lowercase_def)

lemma lower_customers: "lower ''customers'' = ''customers''"
  by (simp add: lower_def lower_char_def ascii_uppercase_def ascii_lowercase_def)

section \<open>The parser model is never changed by a rule\<close>

lemma nlp_rule1 [simp]: "nlp (rule1 wn d i self) = nlp self"
  by (simp add: rule1_def Let_def)

lemma nlp_rule2 [simp]: "nlp (rule2 d i self) = nlp self"
  by (simp add: rule2_def Let_def)

lemma nlp_rule3 [simp]: "nlp (rule3 d i self) = nlp self"
  by (simp add: rule3_def Let_def)

lemma nlp_rule4 [simp]: "nlp (rule4 d i self) = nlp self"
  by (simp add: rule4_def Let_def)

lemma nlp_rules234 [simp]: "nlp (rules234 d i self) = nlp self"
  by (simp add: rules234_def Let_def)

lemma nlp_rule5 [simp]: "nlp (rule5 d i self) = nlp self"
  by (simp add: rule5_def Let_def)

lemma nlp_process_token [simp]: "nlp (process_token wn d i self) = nlp self"
  by (simp add: process_token_def)

lemma nlp_fold [simp]: "nlp (fold (process_token wn d) js self) = nlp self"
  by (induction js arbitrary: self) simp_all

lemma engine_eqI:
  fixes a b :: engine
  assumes "nlp a = nlp b" and "classes a = classes b" and "relationships a = relationships b"
  shows "a = b"
  using assms by simp

section \<open>The registry lookups of the rules find their key\<close>

text \<open>
  Rule 3 and Rule 4 add to an entry only under the test that its name is registered,
  and Rule 5 only after registering the name: the lookup in \<open>add_attribute\<close> and
  \<open>add_method\<close> finds an entry at each of these places.
\<close>

lemma add_attribute_registered:
  assumes "registered self name"
  shows "\<exists>e. map_of (classes self) name = Some e
             \<and> add_attribute name x self =
                 self\<lparr>classes :=
                   AList.update name (e\<lparr>attributes := insert x (attributes e)\<rparr>) (classes self)\<rparr>"
  using assms by (auto simp: registered_iff_map_of add_attribute_def)

lemma add_method_registered:
  assumes "registered self name"
  shows "\<exists>e. map_of (classes self) name = Some e
             \<and> add_method name x self =
                 self\<lparr>classes :=
                   AList.update name (e\<lparr>methods := insert x (methods e)\<rparr>) (classes self)\<rparr>"
  using assms by (auto simp: registered_iff_map_of add_method_def)

lemma registered_before_rule5_lookup: "registered (register rec (register act self)) act"
  by simp

section \<open>Multiplicity: the first matching child decides\<close>

lemma detect_loop_skip:
  "\<forall>p \<in> set pre. lower (tok_text (d ! p)) \<notin> set quantifier_words \<and> tok_tag (d ! p) \<noteq> ''NNS''
   \<Longrightarrow> detect_loop d (pre @ rest) = detect_loop d rest"
  by (induction pre) auto

lemma children_plural_first: "children doc_plural_first 4 = [2, 3]"
  by (simp add: children_def doc_plural_first_def tk_def)

lemma children_quantifier_first: "children doc_quantifier_first 4 = [2, 3]"
  by (simp add: children_def doc_quantifier_first_def tk_def)

text \<open>
  Claim C1, as the specification states it, fails: \<open>accounts\<close> in
  \<open>doc_plural_first\<close> has a quantifier child and a plural child, and the loop returns
  \<open>0..*\<close> at the plural child, which comes first.
\<close>

theorem detect_multiplicity_plural_first:
  "children doc_plural_first 4 = [2, 3]
   \<and> tok_tag (doc_plural_first ! 2) = ''NNS''
   \<and> lower (tok_text (doc_plural_first ! 3)) \<in> set quantifier_words
   \<and> detect_multiplicity doc_plural_first 4 = ''0..*''
   \<and> detect_multiplicity doc_plural_first 4 \<noteq> ''1..*''"
  by (simp add: detect_multiplicity_def children_plural_first lower_many lower_customers
      quantifier_words_def)
     (simp add: doc_plural_first_def tk_def lower_many lower_customers)

text \<open>
  Claim C1, amended. The quantifier check has priority over the plural check within
  each child, and the children are tried in their order: the first child that is a
  quantifier word or carries the tag \<open>NNS\<close> decides. When every child before \<open>c\<close> is
  neither, the result is \<open>1..*\<close> if \<open>c\<close> is a quantifier word (whatever its tag),
  \<open>0..*\<close> if \<open>c\<close> is not one and carries \<open>NNS\<close>, and otherwise what the remaining
  children give. So a token with a quantifier child and a plural child gets \<open>1..*\<close>
  when no plural child that is not a quantifier word precedes the first quantifier
  child.
\<close>

theorem detect_multiplicity_first_match:
  assumes "children d i = pre @ c # post"
    and "\<forall>p \<in> set pre. lower (tok_text (d ! p)) \<notin> set quantifier_words
                      \<and> tok_tag (d ! p) \<noteq> ''NNS''"
  shows "detect_multiplicity d i =
           (if lower (tok_text (d ! c)) \<in> set quantifier_words then ''1..*''
            else if tok_tag (d ! c) = ''NNS'' then ''0..*''
            else detect_loop d post)"
  using assms by (simp add: detect_multiplicity_def detect_loop_skip)

text \<open>
  The amended claim at \<open>doc_quantifier_first\<close>, where the quantifier comes first
  and a plural child follows it.
\<close>

theorem detect_multiplicity_first_match_witness:
  "children doc_quantifier_first 4 = [] @ 2 # [3]
   \<and> lower (tok_text (doc_quantifier_first ! 2)) \<in> set quantifier_words
   \<and> tok_tag (doc_quantifier_first ! 3) = ''NNS''
   \<and> detect_multiplicity doc_quantifier_first 4 = ''1..*''"
proof -
  have c: "children doc_quantifier_first 4 = [] @ 2 # [3]"
    by (simp add: children_quantifier_first)
  have q: "lower (tok_text (doc_quantifier_first ! 2)) \<in> set quantifier_words"
    by (simp add: doc_quantifier_first_def tk_def lower_all quantifier_words_def)
  have n: "tok_tag (doc_quantifier_first ! 3) = ''NNS''"
    by (simp add: doc_quantifier_first_def tk_def)
  from detect_multiplicity_first_match [OF c] q
  have "detect_multiplicity doc_quantifier_first 4 = ''1..*''" by simp
  with c q n show ?thesis by blast
qed

section \<open>Rule 3: composition, or demotion to an attribute\<close>

lemma rules234_rule3:
  "tok_lemma (d ! i) \<in> {''have'', ''contain'', ''include'', ''consist''}
   \<Longrightarrow> rules234 d i self = rule3 d i self"
  by (auto simp: rules234_def)

lemma registered_SomeE:
  assumes "registered self c"
  obtains e where "map_of (classes self) c = Some e"
  using assms by (auto simp: registered_iff_map_of)

text \<open>
  Claim C2. Take a token whose lemma is one of \<open>have\<close>, \<open>contain\<close>, \<open>include\<close>,
  \<open>consist\<close> (so Rule 2 does not match it), with at least one \<open>nsubj\<close> child and one
  \<open>dobj\<close> child, and let \<open>owner\<close> and \<open>obj_c\<close> be the capitalized lemmas of the
  first of each, \<open>owner\<close> being registered. If \<open>obj_c\<close> is registered at that
  moment, the rule chain appends \<open>(owner, Composition, obj_c, m)\<close>, where \<open>m\<close> is the
  inferred multiplicity of the object token, or the empty string when that is \<open>1\<close>,
  and changes nothing else: no attribute is added. If \<open>obj_c\<close> is not registered,
  the surface text of the object token is added to the attribute set of \<open>owner\<close>,
  and the relationships stay as they are.
\<close>

theorem rule3_composition_or_attribute:
  assumes "tok_lemma (d ! i) \<in> {''have'', ''contain'', ''include'', ''consist''}"
    and "owners = with_dep d ''nsubj'' (children d i)"
    and "objs = with_dep d ''dobj'' (children d i)"
    and "owners \<noteq> []" and "objs \<noteq> []"
    and "owner = capitalize (tok_lemma (d ! hd owners))"
    and "obj_c = capitalize (tok_lemma (d ! hd objs))"
    and "mult = detect_multiplicity d (hd objs)"
    and "registered self owner"
  shows "(registered self obj_c \<longrightarrow>
            rules234 d i self =
              self\<lparr>relationships := relationships self @
                [(owner, ''Composition'', obj_c, if mult \<noteq> ''1'' then mult else '''')]\<rparr>)
       \<and> (\<not> registered self obj_c \<longrightarrow>
            relationships (rules234 d i self) = relationships self
            \<and> nlp (rules234 d i self) = nlp self
            \<and> (\<exists>e. map_of (classes self) owner = Some e
                 \<and> classes (rules234 d i self) =
                     AList.update owner
                       (e\<lparr>attributes := insert (tok_text (d ! hd objs)) (attributes e)\<rparr>)
                       (classes self)))"
proof -
  obtain e where e: "map_of (classes self) owner = Some e"
    using assms(9) by (rule registered_SomeE)
  have r: "rules234 d i self = rule3 d i self"
    using assms(1) by (rule rules234_rule3)
  show ?thesis
  proof (cases "registered self obj_c")
    case True
    then show ?thesis
      using assms unfolding r by (simp add: rule3_def Let_def append_rel_def)
  next
    case False
    then show ?thesis
      using assms e unfolding r by (simp add: rule3_def Let_def add_attribute_def)
  qed
qed

lemma children_car: "children doc_car 2 = [1, 4, 5]"
  by (simp add: children_def doc_car_def tk_def)

lemma owners_car: "with_dep doc_car ''nsubj'' (children doc_car 2) = [1]"
  by (simp add: children_car with_dep_def) (simp add: doc_car_def tk_def)

lemma objs_car: "with_dep doc_car ''dobj'' (children doc_car 2) = [4]"
  by (simp add: children_car with_dep_def) (simp add: doc_car_def tk_def)

lemma multiplicity_engine: "detect_multiplicity doc_car (hd [4]) = ''1''"
  by code_simp

lemma multiplicity_accounts: "detect_multiplicity doc_quantifier_first (hd [4]) = ''1..*''"
  by code_simp

lemma owners_bank: "with_dep doc_quantifier_first ''nsubj'' (children doc_quantifier_first 1) = [0]"
  by code_simp

lemma objs_bank: "with_dep doc_quantifier_first ''dobj'' (children doc_quantifier_first 1) = [4]"
  by code_simp

text \<open>
  The theorem at ``The Car has an engine.'' when the loop reaches \<open>has\<close>: only \<open>Car\<close>
  is registered, and \<open>Car\<close> gains the attribute \<open>engine\<close>. With \<open>Engine\<close> registered
  too, the composition is appended with an empty label. At ``Bank has all savings
  accounts'', with both classes registered, the label is \<open>1..*\<close>.
\<close>

theorem rule3_composition_or_attribute_witness:
  "classes (rules234 doc_car 2 (state_of [(''Car'', empty_entry)] []))
     = [(''Car'', \<lparr>attributes = {''engine''}, methods = {}\<rparr>)]
   \<and> relationships (rules234 doc_car 2 (state_of [(''Car'', empty_entry)] [])) = []
   \<and> rules234 doc_car 2 (state_of [(''Car'', empty_entry), (''Engine'', empty_entry)] [])
      = state_of [(''Car'', empty_entry), (''Engine'', empty_entry)]
          [(''Car'', ''Composition'', ''Engine'', '''')]
   \<and> rules234 doc_quantifier_first 1
        (state_of [(''Bank'', empty_entry), (''Account'', empty_entry)] [])
      = state_of [(''Bank'', empty_entry), (''Account'', empty_entry)]
          [(''Bank'', ''Composition'', ''Account'', ''1..*'')]"
proof -
  have l: "tok_lemma (doc_car ! 2) \<in> {''have'', ''contain'', ''include'', ''consist''}"
    by (simp add: doc_car_def tk_def)
  have ne: "[1::nat] \<noteq> []" "[4::nat] \<noteq> []" by simp_all
  have ow: "''Car'' = capitalize (tok_lemma (doc_car ! hd [1]))"
    by (simp add: doc_car_def tk_def capitalize_car)
  have ob: "''Engine'' = capitalize (tok_lemma (doc_car ! hd [4]))"
    by (simp add: doc_car_def tk_def capitalize_engine)
  have tx: "tok_text (doc_car ! hd [4]) = ''engine''"
    by (simp add: doc_car_def tk_def)
  note inst = l owners_car [symmetric] objs_car [symmetric] ne ow ob
    multiplicity_engine [symmetric]
  have r1: "registered (state_of [(''Car'', empty_entry)] []) ''Car''"
    by (simp add: registered_def state_of_def)
  have r2: "registered (state_of [(''Car'', empty_entry), (''Engine'', empty_entry)] []) ''Car''"
    by (simp add: registered_def state_of_def)
  from rule3_composition_or_attribute [OF inst r1] tx
  have 1: "classes (rules234 doc_car 2 (state_of [(''Car'', empty_entry)] []))
             = [(''Car'', \<lparr>attributes = {''engine''}, methods = {}\<rparr>)]
           \<and> relationships (rules234 doc_car 2 (state_of [(''Car'', empty_entry)] [])) = []"
    by (auto simp: registered_def state_of_def empty_entry_def)
  from rule3_composition_or_attribute [OF inst r2]
  have 2: "rules234 doc_car 2 (state_of [(''Car'', empty_entry), (''Engine'', empty_entry)] [])
      = state_of [(''Car'', empty_entry), (''Engine'', empty_entry)]
          [(''Car'', ''Composition'', ''Engine'', '''')]"
    by (simp add: registered_def state_of_def)
  have l': "tok_lemma (doc_quantifier_first ! 1) \<in> {''have'', ''contain'', ''include'', ''consist''}"
    by (simp add: doc_quantifier_first_def tk_def)
  have ne': "[0::nat] \<noteq> []" by simp
  have ow': "''Bank'' = capitalize (tok_lemma (doc_quantifier_first ! hd [0]))"
    by (simp add: doc_quantifier_first_def tk_def capitalize_Bank)
  have ob': "''Account'' = capitalize (tok_lemma (doc_quantifier_first ! hd [4]))"
    by (simp add: doc_quantifier_first_def tk_def capitalize_account)
  have r3: "registered (state_of [(''Bank'', empty_entry), (''Account'', empty_entry)] []) ''Bank''"
    by (simp add: registered_def state_of_def)
  from rule3_composition_or_attribute [OF l' owners_bank [symmetric] objs_bank [symmetric]
      ne' ne(2) ow' ob' multiplicity_accounts [symmetric] r3]
  have 3: "rules234 doc_quantifier_first 1
        (state_of [(''Bank'', empty_entry), (''Account'', empty_entry)] [])
      = state_of [(''Bank'', empty_entry), (''Account'', empty_entry)]
          [(''Bank'', ''Composition'', ''Account'', ''1..*'')]"
    by (simp add: registered_def state_of_def)
  from 1 2 3 show ?thesis by blast
qed

section \<open>Rule 5: passive voice\<close>

lemma rule5_fires:
  assumes "tok_dep (d ! i) = ''agent''" and "tok_pos (d ! head d i) = ''VERB''"
    and "with_dep d ''pobj'' (children d i) \<noteq> []"
    and "with_dep d ''nsubjpass'' (children d (head d i)) \<noteq> []"
  shows "rule5 d i self =
           append_rel (capitalize (tok_lemma (d ! hd (with_dep d ''pobj'' (children d i)))),
                       ''Association'',
                       capitalize (tok_lemma (d ! hd (with_dep d ''nsubjpass'' (children d (head d i))))),
                       tok_lemma (d ! head d i))
             (add_method (capitalize (tok_lemma (d ! hd (with_dep d ''pobj'' (children d i)))))
                (tok_lemma (d ! head d i))
                (register (capitalize (tok_lemma (d ! hd (with_dep d ''nsubjpass'' (children d (head d i))))))
                   (register (capitalize (tok_lemma (d ! hd (with_dep d ''pobj'' (children d i))))) self)))"
  using assms by (simp add: rule5_def Let_def)

lemma map_of_passive_registry:
  "map_of (classes (add_method act v (register rec (register act self)))) =
     (\<lambda>n. if n = act then
             Some (case map_of (classes self) act of
                     None \<Rightarrow> \<lparr>attributes = {}, methods = {v}\<rparr>
                   | Some e \<Rightarrow> e\<lparr>methods := insert v (methods e)\<rparr>)
           else if n = rec then
             Some (case map_of (classes self) rec of None \<Rightarrow> empty_entry | Some e \<Rightarrow> e)
           else map_of (classes self) n)"
  by (rule ext)
     (auto simp: map_of_add_method map_of_register registered_iff_map_of empty_entry_def
        split: option.splits)

text \<open>
  Claim C3. Take a token with dependency label \<open>agent\<close> whose head has the coarse tag
  \<open>VERB\<close>, with a \<open>pobj\<close> child, the head having an \<open>nsubjpass\<close> child; \<open>act\<close> and
  \<open>rec\<close> are the capitalized lemmas of the first of each and \<open>v\<close> is the lemma of the
  head. Whatever Rules 1 to 4 did with the token, leaving the state \<open>st\<close>, the loop
  body ends with \<open>(act, Association, rec, v)\<close> appended, both names registered, \<open>v\<close>
  in the method set of \<open>act\<close>, and every other entry as it was in \<open>st\<close>: an entry
  that existed keeps its sets, a missing \<open>act\<close> or \<open>rec\<close> is created with empty sets
  (before \<open>v\<close> is added to \<open>act\<close>).
\<close>

theorem rule5_passive:
  assumes "tok_dep (d ! i) = ''agent''"
    and "tok_pos (d ! head d i) = ''VERB''"
    and "actual_agent = with_dep d ''pobj'' (children d i)"
    and "passive_subj = with_dep d ''nsubjpass'' (children d (head d i))"
    and "actual_agent \<noteq> []" and "passive_subj \<noteq> []"
    and "act = capitalize (tok_lemma (d ! hd actual_agent))"
    and "rec = capitalize (tok_lemma (d ! hd passive_subj))"
    and "v = tok_lemma (d ! head d i)"
    and "st = rules234 d i (rule1 wn d i self)"
    and "st' = process_token wn d i self"
  shows "relationships st' = relationships st @ [(act, ''Association'', rec, v)]
       \<and> registered st' act \<and> registered st' rec
       \<and> map_of (classes st') act =
           Some (case map_of (classes st) act of
                   None \<Rightarrow> \<lparr>attributes = {}, methods = {v}\<rparr>
                 | Some e \<Rightarrow> e\<lparr>methods := insert v (methods e)\<rparr>)
       \<and> (rec \<noteq> act \<longrightarrow>
            map_of (classes st') rec =
              Some (case map_of (classes st) rec of None \<Rightarrow> empty_entry | Some e \<Rightarrow> e))
       \<and> (\<forall>n. n \<noteq> act \<and> n \<noteq> rec \<longrightarrow> map_of (classes st') n = map_of (classes st) n)"
proof -
  have s: "st' = append_rel (act, ''Association'', rec, v)
                   (add_method act v (register rec (register act st)))"
    using assms by (simp add: process_token_def rule5_fires)
  have r: "relationships st' = relationships st @ [(act, ''Association'', rec, v)]"
    by (simp add: s)
  have g: "registered st' act \<and> registered st' rec"
    by (simp add: s)
  have m: "map_of (classes st') =
     (\<lambda>n. if n = act then
             Some (case map_of (classes st) act of
                     None \<Rightarrow> \<lparr>attributes = {}, methods = {v}\<rparr>
                   | Some e \<Rightarrow> e\<lparr>methods := insert v (methods e)\<rparr>)
           else if n = rec then
             Some (case map_of (classes st) rec of None \<Rightarrow> empty_entry | Some e \<Rightarrow> e)
           else map_of (classes st) n)"
    by (simp add: s map_of_passive_registry)
  from r g show ?thesis
    by (simp add: m)
qed

lemma agent_passive: "with_dep doc_passive ''pobj'' (children doc_passive 4) = [6]"
  by code_simp

lemma subj_passive:
  "with_dep doc_passive ''nsubjpass'' (children doc_passive (head doc_passive 4)) = [1]"
  by code_simp

lemma before_rule5_passive:
  "rules234 doc_passive 4 (rule1 wn_unknown doc_passive 4 (state_of [] [])) = state_of [] []"
proof (rule engine_eqI)
  show "classes (rules234 doc_passive 4 (rule1 wn_unknown doc_passive 4 (state_of [] [])))
        = classes (state_of [] [])"
    by code_simp
  show "relationships (rules234 doc_passive 4 (rule1 wn_unknown doc_passive 4 (state_of [] [])))
        = relationships (state_of [] [])"
    by code_simp
qed simp

text \<open>
  The theorem at the token \<open>by\<close> of ``The Account is managed by the Administrator.'',
  from a state in which no class is registered.
\<close>

theorem rule5_passive_witness:
  "relationships (process_token wn_unknown doc_passive 4 (state_of [] []))
     = [(''Administrator'', ''Association'', ''Account'', ''manage'')]
   \<and> map_of (classes (process_token wn_unknown doc_passive 4 (state_of [] []))) ''Administrator''
     = Some \<lparr>attributes = {}, methods = {''manage''}\<rparr>
   \<and> map_of (classes (process_token wn_unknown doc_passive 4 (state_of [] []))) ''Account''
     = Some \<lparr>attributes = {}, methods = {}\<rparr>
   \<and> map_of (classes (process_token wn_unknown doc_passive 4 (state_of [] []))) ''Customer''
     = None"
proof -
  have dp: "tok_dep (doc_passive ! 4) = ''agent''"
    by (simp add: doc_passive_def tk_def)
  have hp: "tok_pos (doc_passive ! head doc_passive 4) = ''VERB''"
    by (simp add: doc_passive_def tk_def head_def)
  have ne: "[6::nat] \<noteq> []" "[1::nat] \<noteq> []" by simp_all
  have act: "''Administrator'' = capitalize (tok_lemma (doc_passive ! hd [6]))"
    by (simp add: doc_passive_def tk_def capitalize_administrator)
  have rec: "''Account'' = capitalize (tok_lemma (doc_passive ! hd [1]))"
    by (simp add: doc_passive_def tk_def capitalize_account)
  have v: "''manage'' = tok_lemma (doc_passive ! head doc_passive 4)"
    by (simp add: doc_passive_def tk_def head_def)
  from rule5_passive [OF dp hp agent_passive [symmetric] subj_passive [symmetric] ne act rec v
      before_rule5_passive [symmetric] refl]
  show ?thesis
    by (simp add: state_of_def empty_entry_def)
qed

section \<open>Rule 4: association\<close>

lemma rules234_rule4:
  "tok_pos (d ! i) = ''VERB'' \<Longrightarrow> tok_lemma (d ! i) \<notin> set ignored_verbs
   \<Longrightarrow> rules234 d i self = rule4 d i self"
  by (auto simp: rules234_def ignored_verbs_def)

lemma state_two_subjects:
  "rule1 wn_unknown doc_two_subjects 2
     (fold (process_token wn_unknown doc_two_subjects) [0, 1] (state_of [] []))
   = state_of [(''Administrator'', empty_entry)] []"
proof (rule engine_eqI)
  show "classes (rule1 wn_unknown doc_two_subjects 2
          (fold (process_token wn_unknown doc_two_subjects) [0, 1] (state_of [] [])))
        = classes (state_of [(''Administrator'', empty_entry)] [])"
    by code_simp
  show "relationships (rule1 wn_unknown doc_two_subjects 2
          (fold (process_token wn_unknown doc_two_subjects) [0, 1] (state_of [] [])))
        = relationships (state_of [(''Administrator'', empty_entry)] [])"
    by code_simp
qed (simp add: state_of_def)

lemma rules234_two_subjects:
  "rules234 doc_two_subjects 2 (state_of [(''Administrator'', empty_entry)] [])
   = state_of [(''Administrator'', empty_entry)] []"
proof (rule engine_eqI)
  show "classes (rules234 doc_two_subjects 2 (state_of [(''Administrator'', empty_entry)] []))
        = classes (state_of [(''Administrator'', empty_entry)] [])"
    by code_simp
  show "relationships (rules234 doc_two_subjects 2 (state_of [(''Administrator'', empty_entry)] []))
        = relationships (state_of [(''Administrator'', empty_entry)] [])"
    by code_simp
qed simp

text \<open>
  Claim C4, as the specification states it, fails. In \<open>doc_two_subjects\<close> the verb
  \<open>manage\<close> triggers Rule 4 and has the \<open>nsubj\<close> children 0 and 1. When the loop
  reaches the verb, the capitalized lemma of child 1, \<open>Administrator\<close>, names a
  registered class, yet the rule chain changes nothing: \<open>manage\<close> is not added as a
  method of \<open>Administrator\<close>, because only the first \<open>nsubj\<close> child is looked at.
\<close>

theorem rule4_second_subject_ignored:
  "tok_pos (doc_two_subjects ! 2) = ''VERB''
   \<and> tok_lemma (doc_two_subjects ! 2) = ''manage''
   \<and> ''manage'' \<notin> set ignored_verbs
   \<and> with_dep doc_two_subjects ''nsubj'' (children doc_two_subjects 2) = [0, 1]
   \<and> capitalize (tok_lemma (doc_two_subjects ! 1)) = ''Administrator''
   \<and> rule1 wn_unknown doc_two_subjects 2
        (fold (process_token wn_unknown doc_two_subjects) [0, 1] (state_of [] []))
      = state_of [(''Administrator'', empty_entry)] []
   \<and> registered (state_of [(''Administrator'', empty_entry)] []) ''Administrator''
   \<and> rules234 doc_two_subjects 2 (state_of [(''Administrator'', empty_entry)] [])
      = state_of [(''Administrator'', empty_entry)] []
   \<and> map_of (classes (rules234 doc_two_subjects 2 (state_of [(''Administrator'', empty_entry)] [])))
        ''Administrator'' = Some \<lparr>attributes = {}, methods = {}\<rparr>"
proof -
  have a: "tok_pos (doc_two_subjects ! 2) = ''VERB''
           \<and> tok_lemma (doc_two_subjects ! 2) = ''manage''"
    by (simp add: doc_two_subjects_def tk_def)
  have b: "''manage'' \<notin> set ignored_verbs"
    by (simp add: ignored_verbs_def)
  have c: "with_dep doc_two_subjects ''nsubj'' (children doc_two_subjects 2) = [0, 1]"
    by code_simp
  have d: "capitalize (tok_lemma (doc_two_subjects ! 1)) = ''Administrator''"
    by (simp add: doc_two_subjects_def tk_def capitalize_administrator)
  have e: "registered (state_of [(''Administrator'', empty_entry)] []) ''Administrator''"
    by (simp add: registered_def state_of_def)
  have f: "map_of (classes (rules234 doc_two_subjects 2
              (state_of [(''Administrator'', empty_entry)] []))) ''Administrator''
           = Some \<lparr>attributes = {}, methods = {}\<rparr>"
    by (simp add: rules234_two_subjects) (simp add: state_of_def empty_entry_def)
  from a b c d e f state_two_subjects rules234_two_subjects show ?thesis
    by blast
qed

text \<open>
  Claim C4, amended: the rule looks at the first \<open>nsubj\<close> child and the first \<open>dobj\<close>
  child only. Take a token with coarse tag \<open>VERB\<close> whose lemma is not an ignored verb
  (so Rules 2 and 3 do not match), with at least one \<open>nsubj\<close> child, and let \<open>s\<close> be
  the capitalized lemma of the first one. If \<open>s\<close> is not registered, the rule chain
  changes nothing. If \<open>s\<close> is registered, the verb's lemma is added to the method set
  of \<open>s\<close>; and \<open>(s, Association, ob, lemma)\<close> is appended exactly when the token has a
  \<open>dobj\<close> child and the capitalized lemma \<open>ob\<close> of the first one is a registered class
  other than \<open>s\<close>.
\<close>

theorem rule4_first_subject:
  assumes "tok_pos (d ! i) = ''VERB''"
    and "tok_lemma (d ! i) \<notin> set ignored_verbs"
    and "subjs = with_dep d ''nsubj'' (children d i)"
    and "subjs \<noteq> []"
    and "s = capitalize (tok_lemma (d ! hd subjs))"
    and "dobjs = with_dep d ''dobj'' (children d i)"
    and "ob = capitalize (tok_lemma (d ! hd dobjs))"
    and "v = tok_lemma (d ! i)"
  shows "(\<not> registered self s \<longrightarrow> rules234 d i self = self)
       \<and> (registered self s \<longrightarrow>
            (\<exists>e. map_of (classes self) s = Some e
                \<and> classes (rules234 d i self) =
                    AList.update s (e\<lparr>methods := insert v (methods e)\<rparr>) (classes self))
            \<and> nlp (rules234 d i self) = nlp self
            \<and> relationships (rules234 d i self) =
                relationships self @
                  (if dobjs \<noteq> [] \<and> registered self ob \<and> s \<noteq> ob
                   then [(s, ''Association'', ob, v)] else []))"
proof -
  have r: "rules234 d i self = rule4 d i self"
    using assms(1,2) by (rule rules234_rule4)
  show ?thesis
  proof (cases "registered self s")
    case False
    then show ?thesis
      using assms unfolding r by (simp add: rule4_def Let_def)
  next
    case True
    then obtain e where e: "map_of (classes self) s = Some e"
      by (rule registered_SomeE)
    have c: "classes (add_method s v self) =
               AList.update s (e\<lparr>methods := insert v (methods e)\<rparr>) (classes self)"
      using e by (simp add: add_method_def)
    show ?thesis
      using assms True e c unfolding r by (simp add: rule4_def Let_def)
  qed
qed

lemma subjs_active: "with_dep doc_active ''nsubj'' (children doc_active 2) = [1]"
  by code_simp

lemma dobjs_active: "with_dep doc_active ''dobj'' (children doc_active 2) = [4]"
  by code_simp

text \<open>
  The amended claim at the verb of ``The Administrator manages the Account.'': with
  both classes registered the method and the association are added; with only
  \<open>Account\<close> registered nothing changes.
\<close>

theorem rule4_first_subject_witness:
  "classes (rules234 doc_active 2
      (state_of [(''Administrator'', empty_entry), (''Account'', empty_entry)] []))
     = [(''Administrator'', \<lparr>attributes = {}, methods = {''manage''}\<rparr>),
        (''Account'', empty_entry)]
   \<and> relationships (rules234 doc_active 2
        (state_of [(''Administrator'', empty_entry), (''Account'', empty_entry)] []))
     = [(''Administrator'', ''Association'', ''Account'', ''manage'')]
   \<and> rules234 doc_active 2 (state_of [(''Account'', empty_entry)] [])
     = state_of [(''Account'', empty_entry)] []"
proof -
  have p: "tok_pos (doc_active ! 2) = ''VERB''"
    by (simp add: doc_active_def tk_def)
  have l: "tok_lemma (doc_active ! 2) \<notin> set ignored_verbs"
    by (simp add: doc_active_def tk_def ignored_verbs_def)
  have ne: "[1::nat] \<noteq> []" by simp
  have s: "''Administrator'' = capitalize (tok_lemma (doc_active ! hd [1]))"
    by (simp add: doc_active_def tk_def capitalize_administrator)
  have ob: "''Account'' = capitalize (tok_lemma (doc_active ! hd [4]))"
    by (simp add: doc_active_def tk_def capitalize_account)
  have v: "''manage'' = tok_lemma (doc_active ! 2)"
    by (simp add: doc_active_def tk_def)
  note inst = p l subjs_active [symmetric] ne s dobjs_active [symmetric] ob v
  from rule4_first_subject [OF inst,
      of "state_of [(''Administrator'', empty_entry), (''Account'', empty_entry)] []"]
  have 1: "classes (rules234 doc_active 2
      (state_of [(''Administrator'', empty_entry), (''Account'', empty_entry)] []))
     = [(''Administrator'', \<lparr>attributes = {}, methods = {''manage''}\<rparr>),
        (''Account'', empty_entry)]
   \<and> relationships (rules234 doc_active 2
        (state_of [(''Administrator'', empty_entry), (''Account'', empty_entry)] []))
     = [(''Administrator'', ''Association'', ''Account'', ''manage'')]"
    by (auto simp: registered_def state_of_def empty_entry_def)
  from rule4_first_subject [OF inst, of "state_of [(''Account'', empty_entry)] []"]
  have 2: "rules234 doc_active 2 (state_of [(''Account'', empty_entry)] [])
     = state_of [(''Account'', empty_entry)] []"
    by (simp add: registered_def state_of_def)
  from 1 2 show ?thesis by blast
qed

section \<open>Rule 2: generalization\<close>

lemma classes_rule2: "classes (rule2 d i self) = classes self"
  by (simp add: rule2_def Let_def)

lemma relationships_rule1: "relationships (rule1 wn d i self) = relationships self"
  by (simp add: rule1_def Let_def)

lemma generalizations_rule3:
  "generalizations (relationships (rule3 d i self)) = generalizations (relationships self)"
  by (simp add: rule3_def Let_def generalizations_def)

lemma generalizations_rule4:
  "generalizations (relationships (rule4 d i self)) = generalizations (relationships self)"
  by (simp add: rule4_def Let_def generalizations_def)

lemma generalizations_rule5:
  "generalizations (relationships (rule5 d i self)) = generalizations (relationships self)"
  by (simp add: rule5_def Let_def generalizations_def)

lemma relationships_rule2:
  "relationships (rule2 d i self) =
     relationships self @
       (if with_dep d ''nsubj'' (children d i) \<noteq> [] \<and> with_dep d ''attr'' (children d i) \<noteq> []
           \<and> registered self (capitalize (tok_lemma (d ! hd (with_dep d ''nsubj'' (children d i)))))
           \<and> registered self (capitalize (tok_lemma (d ! hd (with_dep d ''attr'' (children d i)))))
        then [(capitalize (tok_lemma (d ! hd (with_dep d ''nsubj'' (children d i)))),
               ''Generalization'',
               capitalize (tok_lemma (d ! hd (with_dep d ''attr'' (children d i)))), '''')]
        else [])"
  by (simp add: rule2_def Let_def)

lemma generalizations_rules234_other:
  "tok_lemma (d ! i) \<noteq> ''be''
   \<Longrightarrow> generalizations (relationships (rules234 d i self)) = generalizations (relationships self)"
  by (simp add: rules234_def Let_def generalizations_rule3 generalizations_rule4)

lemma rules234_be: "tok_lemma (d ! i) = ''be'' \<Longrightarrow> rules234 d i self = rule2 d i self"
  by (simp add: rules234_def)

text \<open>
  Claim C5. Let \<open>c\<close> and \<open>p\<close> be the capitalized lemmas of the first \<open>nsubj\<close> child
  and the first \<open>attr\<close> child of a token, and \<open>self1\<close> the state in which the rule
  chain finds the engine (after Rule 1 has looked at the same token). If the token's
  lemma is \<open>be\<close>, the chain leaves the registry as it is: Rule 2 registers no class.
  Over the whole loop body, the \<open>Generalization\<close> relationships grow by exactly
  \<open>(c, Generalization, p, '')\<close> when the lemma is \<open>be\<close>, both children exist and both
  names are registered in \<open>self1\<close>; in every other case, in particular when neither
  name is registered, no \<open>Generalization\<close> relationship is appended for the token.
\<close>

theorem rule2_generalization:
  assumes "subj = with_dep d ''nsubj'' (children d i)"
    and "attr = with_dep d ''attr'' (children d i)"
    and "c = capitalize (tok_lemma (d ! hd subj))"
    and "p = capitalize (tok_lemma (d ! hd attr))"
    and "self1 = rule1 wn d i self"
  shows "(tok_lemma (d ! i) = ''be'' \<longrightarrow> classes (rules234 d i self1) = classes self1)
    \<and> generalizations (relationships (process_token wn d i self)) =
        generalizations (relationships self) @
          (if tok_lemma (d ! i) = ''be'' \<and> subj \<noteq> [] \<and> attr \<noteq> []
              \<and> registered self1 c \<and> registered self1 p
           then [(c, ''Generalization'', p, '''')] else [])"
proof (cases "tok_lemma (d ! i) = ''be''")
  case True
  have "generalizations (relationships (process_token wn d i self))
        = generalizations (relationships (rule2 d i self1))"
    using True assms(5) by (simp add: process_token_def generalizations_rule5 rules234_be)
  also have "\<dots> = generalizations (relationships self) @
          (if subj \<noteq> [] \<and> attr \<noteq> [] \<and> registered self1 c \<and> registered self1 p
           then [(c, ''Generalization'', p, '''')] else [])"
    using assms by (simp add: relationships_rule2 relationships_rule1 generalizations_def)
  finally show ?thesis
    using True by (simp add: rules234_be classes_rule2)
next
  case False
  then show ?thesis
    using assms(5)
    by (simp add: process_token_def generalizations_rule5 generalizations_rules234_other
        relationships_rule1)
qed

lemma children_dog: "children doc_dog 2 = [1, 4, 5]"
  by (simp add: children_def doc_dog_def tk_def)

lemma subj_dog: "with_dep doc_dog ''nsubj'' (children doc_dog 2) = [1]"
  by (simp add: children_dog with_dep_def) (simp add: doc_dog_def tk_def)

lemma attr_dog: "with_dep doc_dog ''attr'' (children doc_dog 2) = [4]"
  by (simp add: children_dog with_dep_def) (simp add: doc_dog_def tk_def)

lemma rule1_dog_is: "rule1 wn doc_dog 2 self = self"
  by (simp add: rule1_def doc_dog_def tk_def)

text \<open>
  The theorem at the copula of ``The Dog is an Animal.'', in three states: with only
  \<open>Dog\<close> registered (what Rule 1 has done when the loop reaches the copula), with no
  class registered, and with both registered. Only the last appends the relationship.
\<close>

theorem rule2_generalization_witness:
  "generalizations (relationships
      (process_token wn_unknown doc_dog 2 (state_of [(''Dog'', empty_entry)] []))) = []
   \<and> generalizations (relationships (process_token wn_unknown doc_dog 2 (state_of [] []))) = []
   \<and> generalizations (relationships
        (process_token wn_unknown doc_dog 2
           (state_of [(''Animal'', empty_entry), (''Dog'', empty_entry)] [])))
      = [(''Dog'', ''Generalization'', ''Animal'', '''')]
   \<and> classes (rules234 doc_dog 2 (state_of [(''Animal'', empty_entry), (''Dog'', empty_entry)] []))
      = [(''Animal'', empty_entry), (''Dog'', empty_entry)]"
proof -
  have be: "tok_lemma (doc_dog ! 2) = ''be''"
    by (simp add: doc_dog_def tk_def)
  have c: "capitalize (tok_lemma (doc_dog ! hd [1])) = ''Dog''"
    by (simp add: doc_dog_def tk_def capitalize_dog)
  have p: "capitalize (tok_lemma (doc_dog ! hd [4])) = ''Animal''"
    by (simp add: doc_dog_def tk_def capitalize_animal)
  note inst = subj_dog [symmetric] attr_dog [symmetric] c [symmetric] p [symmetric]
    rule1_dog_is [symmetric]
  from rule2_generalization [where d = doc_dog and i = 2 and wn = wn_unknown
      and self = "state_of [(''Dog'', empty_entry)] []", OF inst]
  have 1: "generalizations (relationships
      (process_token wn_unknown doc_dog 2 (state_of [(''Dog'', empty_entry)] []))) = []"
    by (simp add: state_of_def registered_def generalizations_def)
  from rule2_generalization [where d = doc_dog and i = 2 and wn = wn_unknown
      and self = "state_of [] []", OF inst]
  have 2: "generalizations (relationships (process_token wn_unknown doc_dog 2 (state_of [] []))) = []"
    by (simp add: state_of_def registered_def generalizations_def)
  from rule2_generalization [where d = doc_dog and i = 2 and wn = wn_unknown
      and self = "state_of [(''Animal'', empty_entry), (''Dog'', empty_entry)] []", OF inst] be
  have 3: "generalizations (relationships
        (process_token wn_unknown doc_dog 2
           (state_of [(''Animal'', empty_entry), (''Dog'', empty_entry)] [])))
      = [(''Dog'', ''Generalization'', ''Animal'', '''')]
   \<and> classes (rules234 doc_dog 2 (state_of [(''Animal'', empty_entry), (''Dog'', empty_entry)] []))
      = [(''Animal'', empty_entry), (''Dog'', empty_entry)]"
    by (simp add: state_of_def registered_def generalizations_def)
  from 1 2 3 show ?thesis by blast
qed

section \<open>The ontology filter\<close>

lemma any_noun_False_iff:
  "any_noun ss = Returns False \<longleftrightarrow> (\<forall>s \<in> set ss. \<exists>p. s = Returns p \<and> p \<noteq> ''n'')"
  by (induction ss) (auto split: outcome.splits)

text \<open>
  Claim C6. \<open>check_ontology\<close> answers \<open>True\<close> when WordNet knows no sense of the
  word, and \<open>True\<close> when the lookup raises; it answers \<open>False\<close> exactly when the
  lookup returns at least one sense, no call of \<open>pos()\<close> raises, and no sense is a noun
  sense. No exception leaves the function: its result is a plain truth value.
\<close>

theorem check_ontology_fail_open:
  "(wn word = Returns [] \<longrightarrow> check_ontology wn word)
   \<and> (wn word = Raises \<longrightarrow> check_ontology wn word)
   \<and> (\<not> check_ontology wn word \<longleftrightarrow>
        (\<exists>ss. wn word = Returns ss \<and> ss \<noteq> []
              \<and> (\<forall>s \<in> set ss. \<exists>p. s = Returns p \<and> p \<noteq> ''n'')))"
proof -
  have "\<not> check_ontology wn word \<longleftrightarrow>
        (\<exists>ss. wn word = Returns ss \<and> ss \<noteq> [] \<and> any_noun ss = Returns False)"
    by (auto simp: check_ontology_def split: outcome.splits)
  then show ?thesis
    by (auto simp: check_ontology_def any_noun_False_iff)
qed

text \<open>
  The theorem at a concrete inventory: an unknown word, a failing lookup, a word
  known only as an adverb, and a word with a verb and a noun sense.
\<close>

theorem check_ontology_fail_open_witness:
  "check_ontology wn_example ''banksystem'' \<and> check_ontology wn_example ''account''
   \<and> \<not> check_ontology wn_example ''quickly'' \<and> check_ontology wn_example ''run''"
proof -
  have a: "wn_example ''banksystem'' = Returns []" by (simp add: wn_example_def)
  have b: "wn_example ''account'' = Raises" by (simp add: wn_example_def)
  have c: "wn_example ''quickly'' = Returns [Returns ''r'']" by (simp add: wn_example_def)
  have d: "wn_example ''run'' = Returns [Returns ''v'', Returns ''n'']"
    by (simp add: wn_example_def)
  from a check_ontology_fail_open [of wn_example "''banksystem''"]
  have 1: "check_ontology wn_example ''banksystem''" by blast
  from b check_ontology_fail_open [of wn_example "''account''"]
  have 2: "check_ontology wn_example ''account''" by blast
  from c check_ontology_fail_open [of wn_example "''quickly''"]
  have 3: "\<not> check_ontology wn_example ''quickly''" by simp
  from d check_ontology_fail_open [of wn_example "''run''"]
  have 4: "check_ontology wn_example ''run''" by simp
  from 1 2 3 4 show ?thesis by blast
qed

section \<open>Relationship endpoints are registered classes\<close>

lemma endpoints_register: "endpoints_registered self \<Longrightarrow> endpoints_registered (register c self)"
  by (simp add: endpoints_registered_def)

lemma endpoints_add_method:
  "endpoints_registered self \<Longrightarrow> endpoints_registered (add_method n x self)"
  by (simp add: endpoints_registered_def)

lemma endpoints_add_attribute:
  "endpoints_registered self \<Longrightarrow> endpoints_registered (add_attribute n x self)"
  by (simp add: endpoints_registered_def)

lemma endpoints_append_rel:
  "endpoints_registered self \<Longrightarrow> registered self s \<Longrightarrow> registered self t
   \<Longrightarrow> endpoints_registered (append_rel (s, k, t, l) self)"
  by (simp add: endpoints_registered_def)

lemmas endpoints_intros =
  endpoints_register endpoints_add_method endpoints_add_attribute endpoints_append_rel

lemma endpoints_rule1: "endpoints_registered self \<Longrightarrow> endpoints_registered (rule1 wn d i self)"
  by (simp add: rule1_def Let_def endpoints_register)

lemma endpoints_rule2: "endpoints_registered self \<Longrightarrow> endpoints_registered (rule2 d i self)"
  by (simp add: rule2_def Let_def endpoints_append_rel)

lemma endpoints_rule3: "endpoints_registered self \<Longrightarrow> endpoints_registered (rule3 d i self)"
  by (simp add: rule3_def Let_def endpoints_append_rel endpoints_add_attribute)

lemma endpoints_rule4: "endpoints_registered self \<Longrightarrow> endpoints_registered (rule4 d i self)"
  by (simp add: rule4_def Let_def endpoints_append_rel endpoints_add_method)

lemma endpoints_rules234:
  "endpoints_registered self \<Longrightarrow> endpoints_registered (rules234 d i self)"
  by (simp add: rules234_def Let_def endpoints_rule2 endpoints_rule3 endpoints_rule4)

lemma endpoints_rule5: "endpoints_registered self \<Longrightarrow> endpoints_registered (rule5 d i self)"
  by (simp add: rule5_def Let_def endpoints_intros)

lemma endpoints_process_token:
  "endpoints_registered self \<Longrightarrow> endpoints_registered (process_token wn d i self)"
  by (simp add: process_token_def endpoints_rule1 endpoints_rules234 endpoints_rule5)

lemma endpoints_fold:
  "endpoints_registered self \<Longrightarrow> endpoints_registered (fold (process_token wn d) js self)"
  by (induction js arbitrary: self) (simp_all add: endpoints_process_token)

lemma endpoints_reset: "endpoints_registered (self\<lparr>classes := [], relationships := []\<rparr>)"
  by (simp add: endpoints_registered_def)

text \<open>
  Claim C7. When \<open>process\<close> has finished its pass over the tokens, the source and the
  target of every collected relationship are keys of the class registry. Rules 2, 3
  and 4 append only after finding both names in the registry, Rule 5 registers both
  names before it appends, and no rule removes a key.
\<close>

theorem process_endpoints_registered:
  assumes "nlp self = Some parse"
  shows "\<forall>(s, kind, t, label) \<in> set (relationships (snd (process wn ord_str ord_rel self txt))).
           registered (snd (process wn ord_str ord_rel self txt)) s
           \<and> registered (snd (process wn ord_str ord_rel self txt)) t"
proof -
  have "endpoints_registered (snd (process wn ord_str ord_rel self txt))"
    using assms by (simp add: process_def process_loop_def Let_def endpoints_fold endpoints_reset)
  then show ?thesis
    by (auto simp: endpoints_registered_def)
qed

lemma relationships_passive:
  "relationships (process_loop wn_unknown doc_passive
      \<lparr>nlp = Some parse_passive, classes = [], relationships = []\<rparr>)
   = [(''Administrator'', ''Association'', ''Account'', ''manage'')]"
  by code_simp

lemma classes_passive:
  "classes (process_loop wn_unknown doc_passive
      \<lparr>nlp = Some parse_passive, classes = [], relationships = []\<rparr>)
   = [(''Account'', \<lparr>attributes = {}, methods = {}\<rparr>),
      (''Administrator'', \<lparr>attributes = {}, methods = {''manage''}\<rparr>)]"
  by code_simp

text \<open>
  The theorem at the sentence ``The Account is managed by the Administrator.'': one
  relationship is collected, and both its endpoints are registered.
\<close>

theorem process_endpoints_registered_witness:
  "relationships (snd (process wn_unknown (\<lambda>S. []) (\<lambda>S. []) (init (Some parse_passive)) ''x''))
     = [(''Administrator'', ''Association'', ''Account'', ''manage'')]
   \<and> registered (snd (process wn_unknown (\<lambda>S. []) (\<lambda>S. []) (init (Some parse_passive)) ''x''))
        ''Administrator''
   \<and> registered (snd (process wn_unknown (\<lambda>S. []) (\<lambda>S. []) (init (Some parse_passive)) ''x''))
        ''Account''"
proof -
  have n: "nlp (init (Some parse_passive)) = Some parse_passive"
    by (simp add: init_def)
  have r: "relationships
             (snd (process wn_unknown (\<lambda>S. []) (\<lambda>S. []) (init (Some parse_passive)) ''x''))
           = [(''Administrator'', ''Association'', ''Account'', ''manage'')]"
    by (simp add: process_def init_def Let_def parse_passive_def relationships_passive)
  from process_endpoints_registered [OF n, of wn_unknown "\<lambda>S. []" "\<lambda>S. []" "''x''"] r
  show ?thesis by simp
qed

section \<open>Deduplication and edges\<close>

lemma count_list_distinct: "distinct xs \<Longrightarrow> x \<in> set xs \<Longrightarrow> count_list xs x = 1"
  by (induction xs) auto

text \<open>
  Claim C8. \<open>unique_rels\<close> is the set of the collected relationships, visited in
  the order \<open>ord_rel\<close> gives for it. An iteration visits every element of the set once;
  under that hypothesis the visited list has no two equal tuples and holds exactly
  the tuples that were collected, each once, however often a tuple was appended. The
  diagram gets one edge per visited tuple, in that order, so as many edges as there
  are distinct tuples. An edge is styled by the kind of its tuple: \<open>Generalization\<close>
  has the head \<open>onormal\<close> and an empty label, \<open>Composition\<close> has the direction
  \<open>both\<close>, the tail \<open>diamond\<close>, the head \<open>none\<close> and the tuple's label, and
  \<open>Association\<close> has the head \<open>vee\<close> and the tuple's label.
\<close>

theorem unique_rels_one_edge_each:
  assumes "iteration_of (set (relationships self)) (ord_rel (set (relationships self)))"
  shows "distinct (unique_rels ord_rel self)
       \<and> set (unique_rels ord_rel self) = set (relationships self)
       \<and> (\<forall>r \<in> set (relationships self). count_list (unique_rels ord_rel self) r = 1)
       \<and> edges (generate_graphviz ord_str ord_rel self) = map edge_of (unique_rels ord_rel self)
       \<and> length (edges (generate_graphviz ord_str ord_rel self)) = card (set (relationships self))
       \<and> edge_of (s, ''Generalization'', t, label) =
           \<lparr>edge_tail = s, edge_head = t,
            edge_attrs = [(''arrowhead'', ''onormal''), (''label'', '''')]\<rparr>
       \<and> edge_of (s, ''Composition'', t, label) =
           \<lparr>edge_tail = s, edge_head = t,
            edge_attrs = [(''dir'', ''both''), (''arrowtail'', ''diamond''),
                          (''arrowhead'', ''none''), (''label'', label)]\<rparr>
       \<and> edge_of (s, ''Association'', t, label) =
           \<lparr>edge_tail = s, edge_head = t,
            edge_attrs = [(''arrowhead'', ''vee''), (''label'', label)]\<rparr>"
proof -
  have d: "distinct (unique_rels ord_rel self)"
    and e: "set (unique_rels ord_rel self) = set (relationships self)"
    using assms by (simp_all add: iteration_of_def unique_rels_def)
  have c: "\<forall>r \<in> set (relationships self). count_list (unique_rels ord_rel self) r = 1"
    using d e by (simp add: count_list_distinct)
  have g: "edges (generate_graphviz ord_str ord_rel self) = map edge_of (unique_rels ord_rel self)"
    by (simp add: generate_graphviz_def)
  have "card (set (unique_rels ord_rel self)) = length (unique_rels ord_rel self)"
    using d by (rule distinct_card)
  then have n: "length (edges (generate_graphviz ord_str ord_rel self))
                = card (set (relationships self))"
    by (simp add: g e)
  from d e c g n show ?thesis
    by simp
qed

text \<open>
  The theorem at a collection in which the association was appended twice, with the
  composition between the two; the set is visited composition first.
\<close>

theorem unique_rels_one_edge_each_witness:
  "edges (generate_graphviz (\<lambda>S. [])
       (\<lambda>S. [(''Bank'', ''Composition'', ''Account'', ''1..*''),
             (''Administrator'', ''Association'', ''Account'', ''manage'')])
       (state_of []
          [(''Administrator'', ''Association'', ''Account'', ''manage''),
           (''Bank'', ''Composition'', ''Account'', ''1..*''),
           (''Administrator'', ''Association'', ''Account'', ''manage'')]))
   = [\<lparr>edge_tail = ''Bank'', edge_head = ''Account'',
       edge_attrs = [(''dir'', ''both''), (''arrowtail'', ''diamond''),
                     (''arrowhead'', ''none''), (''label'', ''1..*'')]\<rparr>,
      \<lparr>edge_tail = ''Administrator'', edge_head = ''Account'',
       edge_attrs = [(''arrowhead'', ''vee''), (''label'', ''manage'')]\<rparr>]
   \<and> card (set (relationships (state_of []
          [(''Administrator'', ''Association'', ''Account'', ''manage''),
           (''Bank'', ''Composition'', ''Account'', ''1..*''),
           (''Administrator'', ''Association'', ''Account'', ''manage'')]))) = 2"
proof -
  let ?a = "(''Administrator'', ''Association'', ''Account'', ''manage'')"
  let ?c = "(''Bank'', ''Composition'', ''Account'', ''1..*'')"
  let ?ord = "\<lambda>S :: relationship set. [?c, ?a]"
  have h: "iteration_of (set (relationships (state_of [] [?a, ?c, ?a])))
             (?ord (set (relationships (state_of [] [?a, ?c, ?a]))))"
    by (auto simp: iteration_of_def state_of_def)
  note t = unique_rels_one_edge_each [OF h, of "\<lambda>S. []"]
  have e: "edges (generate_graphviz (\<lambda>S. []) ?ord (state_of [] [?a, ?c, ?a]))
           = map edge_of (unique_rels ?ord (state_of [] [?a, ?c, ?a]))"
    by (rule t [THEN conjunct2, THEN conjunct2, THEN conjunct2, THEN conjunct1])
  have n: "length (edges (generate_graphviz (\<lambda>S. []) ?ord (state_of [] [?a, ?c, ?a])))
           = card (set (relationships (state_of [] [?a, ?c, ?a])))"
    by (rule t [THEN conjunct2, THEN conjunct2, THEN conjunct2, THEN conjunct2, THEN conjunct1])
  have u: "unique_rels ?ord (state_of [] [?a, ?c, ?a]) = [?c, ?a]"
    by (simp add: unique_rels_def)
  have 1: "edges (generate_graphviz (\<lambda>S. []) ?ord (state_of [] [?a, ?c, ?a]))
           = [edge_of ?c, edge_of ?a]"
    by (simp add: e u)
  have 2: "card (set (relationships (state_of [] [?a, ?c, ?a]))) = 2"
    using n by (simp add: 1)
  from 1 2 show ?thesis
    by simp
qed

section \<open>Every call starts from an empty registry\<close>

lemma registered_rule1: "registered self c \<Longrightarrow> registered (rule1 wn d i self) c"
  by (simp add: rule1_def Let_def)

lemma registered_rule2: "registered (rule2 d i self) c = registered self c"
  by (simp add: rule2_def Let_def)

lemma registered_rule3: "registered (rule3 d i self) c = registered self c"
  by (simp add: rule3_def Let_def)

lemma registered_rule4: "registered (rule4 d i self) c = registered self c"
  by (simp add: rule4_def Let_def)

lemma registered_rules234: "registered (rules234 d i self) c = registered self c"
  by (simp add: rules234_def Let_def registered_rule2 registered_rule3 registered_rule4)

lemma registered_rule5: "registered self c \<Longrightarrow> registered (rule5 d i self) c"
  by (simp add: rule5_def Let_def)

lemma registered_process_token:
  "registered self c \<Longrightarrow> registered (process_token wn d i self) c"
  by (simp add: process_token_def registered_rule1 registered_rules234 registered_rule5)

lemma registered_fold:
  "registered self c \<Longrightarrow> registered (fold (process_token wn d) js self) c"
  by (induction js arbitrary: self) (simp_all add: registered_process_token)

lemma upt_split: "j \<le> k \<Longrightarrow> [0..<k] = [0..<j] @ [j..<k]"
  by (metis le0 le_add_diff_inverse upt_add_eq_append)

lemma registered_later:
  assumes "j \<le> k" and "registered (fold (process_token wn d) [0..<j] self) c"
  shows "registered (fold (process_token wn d) [0..<k] self) c"
proof -
  have "fold (process_token wn d) [0..<k] self
        = fold (process_token wn d) [j..<k] (fold (process_token wn d) [0..<j] self)"
    using assms(1) by (simp add: upt_split [of j k])
  then show ?thesis
    using assms(2) by (simp add: registered_fold)
qed

text \<open>
  Claim C9. For an engine that holds a parser model, \<open>process\<close> replaces the registry
  and the relationships by empty ones before it reads the text. So the diagram and the
  state it leaves depend on the model and the text only: two engines with the same
  model give the same result for the same text, whatever they held before, and the
  same as a newly constructed engine. Within the call no class is deleted: a name
  registered after \<open>j\<close> tokens is registered after any \<open>k \<ge> j\<close> tokens and when the
  call returns, and inside the loop body each of Rule 1, the chain of Rules 2 to 4 and
  Rule 5 keeps every registered name.
\<close>

theorem process_independent_of_prior_state:
  assumes "nlp self1 = Some parse" and "nlp self2 = Some parse"
  shows "process wn ord_str ord_rel self1 txt = process wn ord_str ord_rel self2 txt
       \<and> process wn ord_str ord_rel self1 txt
           = process wn ord_str ord_rel (init (Some parse)) txt
       \<and> snd (process wn ord_str ord_rel self1 txt)
           = fold (process_token wn (parse txt)) [0..<length (parse txt)] (init (Some parse))
       \<and> (\<forall>j k c. j \<le> k \<and> k \<le> length (parse txt)
              \<and> registered (fold (process_token wn (parse txt)) [0..<j] (init (Some parse))) c
            \<longrightarrow> registered (fold (process_token wn (parse txt)) [0..<k] (init (Some parse))) c
                \<and> registered (snd (process wn ord_str ord_rel self1 txt)) c)
       \<and> (\<forall>st i c. registered st c
            \<longrightarrow> registered (rule1 wn (parse txt) i st) c
                \<and> registered (rules234 (parse txt) i (rule1 wn (parse txt) i st)) c
                \<and> registered (process_token wn (parse txt) i st) c)"
proof -
  have r1: "self1\<lparr>classes := [], relationships := []\<rparr> = init (Some parse)"
    using assms(1) by (simp add: init_def)
  have r2: "self2\<lparr>classes := [], relationships := []\<rparr> = init (Some parse)"
    using assms(2) by (simp add: init_def)
  have p1: "process wn ord_str ord_rel self1 txt
            = (let self' = process_loop wn (parse txt) (init (Some parse))
               in (Some (generate_graphviz ord_str ord_rel self'), self'))"
    using assms(1) by (simp add: process_def r1 Let_def)
  have p2: "process wn ord_str ord_rel self2 txt
            = (let self' = process_loop wn (parse txt) (init (Some parse))
               in (Some (generate_graphviz ord_str ord_rel self'), self'))"
    using assms(2) by (simp add: process_def r2 Let_def)
  have p0: "process wn ord_str ord_rel (init (Some parse)) txt
            = (let self' = process_loop wn (parse txt) (init (Some parse))
               in (Some (generate_graphviz ord_str ord_rel self'), self'))"
    by (simp add: process_def init_def Let_def)
  have s: "snd (process wn ord_str ord_rel self1 txt)
           = fold (process_token wn (parse txt)) [0..<length (parse txt)] (init (Some parse))"
    by (simp add: p1 Let_def process_loop_def)
  have m: "\<forall>j k c. j \<le> k \<and> k \<le> length (parse txt)
              \<and> registered (fold (process_token wn (parse txt)) [0..<j] (init (Some parse))) c
            \<longrightarrow> registered (fold (process_token wn (parse txt)) [0..<k] (init (Some parse))) c
                \<and> registered (snd (process wn ord_str ord_rel self1 txt)) c"
    unfolding s by (blast intro: registered_later order_trans)
  have t: "\<forall>st i c. registered st c
            \<longrightarrow> registered (rule1 wn (parse txt) i st) c
                \<and> registered (rules234 (parse txt) i (rule1 wn (parse txt) i st)) c
                \<and> registered (process_token wn (parse txt) i st) c"
    by (simp add: registered_rule1 registered_rules234 registered_process_token)
  have c1: "process wn ord_str ord_rel self1 txt = process wn ord_str ord_rel self2 txt"
    by (simp only: p1 p2)
  have c2: "process wn ord_str ord_rel self1 txt
            = process wn ord_str ord_rel (init (Some parse)) txt"
    by (simp only: p1 p0)
  show ?thesis
    by (intro conjI) (rule c1, rule c2, rule s, rule m, rule t)
qed

text \<open>
  The theorem at two engines with the same parser: a new one, and one that holds a class
  and a relationship from before. Both calls leave the same state, in which nothing of
  the earlier contents is left.
\<close>

theorem process_independent_of_prior_state_witness:
  "process wn_unknown (\<lambda>S. []) (\<lambda>S. [])
     \<lparr>nlp = Some parse_passive, classes = [(''Car'', empty_entry)],
      relationships = [(''Car'', ''Composition'', ''Car'', ''1..*'')]\<rparr> ''x''
   = process wn_unknown (\<lambda>S. []) (\<lambda>S. []) (init (Some parse_passive)) ''x''
   \<and> classes (snd (process wn_unknown (\<lambda>S. []) (\<lambda>S. [])
        \<lparr>nlp = Some parse_passive, classes = [(''Car'', empty_entry)],
         relationships = [(''Car'', ''Composition'', ''Car'', ''1..*'')]\<rparr> ''x''))
     = [(''Account'', \<lparr>attributes = {}, methods = {}\<rparr>),
        (''Administrator'', \<lparr>attributes = {}, methods = {''manage''}\<rparr>)]
   \<and> relationships (snd (process wn_unknown (\<lambda>S. []) (\<lambda>S. [])
        \<lparr>nlp = Some parse_passive, classes = [(''Car'', empty_entry)],
         relationships = [(''Car'', ''Composition'', ''Car'', ''1..*'')]\<rparr> ''x''))
     = [(''Administrator'', ''Association'', ''Account'', ''manage'')]"
proof -
  let ?old = "\<lparr>nlp = Some parse_passive, classes = [(''Car'', empty_entry)],
               relationships = [(''Car'', ''Composition'', ''Car'', ''1..*'')]\<rparr>"
  have a: "nlp ?old = Some parse_passive" by simp
  have b: "nlp (init (Some parse_passive)) = Some parse_passive" by (simp add: init_def)
  note t = process_independent_of_prior_state [OF a b, of wn_unknown "\<lambda>S. []" "\<lambda>S. []" "''x''"]
  have 1: "process wn_unknown (\<lambda>S. []) (\<lambda>S. []) ?old ''x''
           = process wn_unknown (\<lambda>S. []) (\<lambda>S. []) (init (Some parse_passive)) ''x''"
    by (rule t [THEN conjunct1])
  have 2: "snd (process wn_unknown (\<lambda>S. []) (\<lambda>S. []) ?old ''x'')
           = process_loop wn_unknown doc_passive
               \<lparr>nlp = Some parse_passive, classes = [], relationships = []\<rparr>"
    using t [THEN conjunct2, THEN conjunct2, THEN conjunct1]
    by (simp add: process_loop_def init_def parse_passive_def)
  have 3: "classes (snd (process wn_unknown (\<lambda>S. []) (\<lambda>S. []) ?old ''x''))
           = [(''Account'', \<lparr>attributes = {}, methods = {}\<rparr>),
              (''Administrator'', \<lparr>attributes = {}, methods = {''manage''}\<rparr>)]"
    by (simp only: 2 classes_passive)
  have 4: "relationships (snd (process wn_unknown (\<lambda>S. []) (\<lambda>S. []) ?old ''x''))
           = [(''Administrator'', ''Association'', ''Account'', ''manage'')]"
    by (simp only: 2 relationships_passive)
  show ?thesis
    by (intro conjI) (rule 1, rule 3, rule 4)
qed

section \<open>An engine without a parser model\<close>

text \<open>
  Claim C10. When the engine holds no parser model, \<open>process\<close> returns \<open>None\<close> for
  every text and leaves the engine as it was: the registry and the relationships keep
  their contents, nothing is extracted, and the result is the value \<open>None\<close>, not an
  error.
\<close>

theorem process_without_model:
  "nlp self = None \<Longrightarrow> process wn ord_str ord_rel self txt = (None, self)"
  by (simp add: process_def)

text \<open>The theorem at an engine without a model that holds one class and one relationship.\<close>

theorem process_without_model_witness:
  "process wn_example (\<lambda>S. []) (\<lambda>S. [])
     \<lparr>nlp = None, classes = [(''Car'', empty_entry)],
      relationships = [(''Car'', ''Composition'', ''Car'', ''1..*'')]\<rparr> ''The Car has an engine.''
   = (None, \<lparr>nlp = None, classes = [(''Car'', empty_entry)],
             relationships = [(''Car'', ''Composition'', ''Car'', ''1..*'')]\<rparr>)"
  using process_without_model [of "\<lparr>nlp = None, classes = [(''Car'', empty_entry)],
      relationships = [(''Car'', ''Composition'', ''Car'', ''1..*'')]\<rparr>"
      wn_example "\<lambda>S. []" "\<lambda>S. []" "''The Car has an engine.''"]
  by simp

end
